theory Spec2Isabelle
  imports Main "HOL-Library.Word" "HOL-Library.AList"
begin

section \<open>The ADB packet dispatcher of ya-webadb\<close>

text \<open>
  A shallow embedding of \<^verbatim>\<open>libraries/adb/src/socket/dispatcher.ts\<close>: the class
  \<^verbatim>\<open>AdbPacketDispatcher\<close> with its handlers \<^verbatim>\<open>handleOk\<close>, \<^verbatim>\<open>handleClose\<close>,
  \<^verbatim>\<open>handleOpen\<close>, the \<^verbatim>\<open>WRTE\<close> case of the inbound sink, \<^verbatim>\<open>createSocket\<close>,
  \<^verbatim>\<open>sendPacket\<close> and \<^verbatim>\<open>dispose\<close>.

  The dispatcher is one object mutated by asynchronous functions on a single thread. The
  object is a record that every function takes and returns. An asynchronous function is
  cut at its \<^verbatim>\<open>await\<close>s: the code up to the first \<^verbatim>\<open>await\<close> is one function of the
  model, the code after it another (its continuation), and the state records which
  continuation is suspended. Between the two, other code of the dispatcher may run; the
  relation \<open>reachable\<close> at the end of the definitions lists every such interleaving.
  An exception is a value; a function that throws after it has mutated the object returns
  the mutated state with the error, since JavaScript undoes nothing.

  JavaScript numbers that hold identifiers and sizes are \<open>nat\<close>: the identifiers come
  from a counter that starts at 1 and is incremented by one, which is exact in a
  \<^verbatim>\<open>number\<close> for the first \<open>2 ^ 53\<close> increments.
\<close>

subsection \<open>Bytes and strings\<close>

type_synonym byte = "8 word"

text \<open>A JavaScript string is its sequence of UTF-16 code units, each below \<open>2 ^ 16\<close>.\<close>

type_synonym jsstring = "nat list"

text \<open>The string literal \<^verbatim>\<open>'\0'\<close>.\<close>

definition NUL :: jsstring where
  "NUL = [0]"

text \<open>An ASCII literal as a JavaScript string.\<close>

definition ascii :: "string \<Rightarrow> jsstring" where
  "ascii cs = map of_char cs"

text \<open>
  Modelled from the spec: \<^verbatim>\<open>encodeUtf8\<close> and \<^verbatim>\<open>decodeUtf8\<close> of
  \<^verbatim>\<open>utils/index.js\<close> are imported by the dispatcher and are not among the sources. The
  spec says of them only that the service string is decoded "as UTF-8". They are modelled
  as the UTF-8 encoder and the (replacing, BOM-skipping) UTF-8 decoder of the platform's
  \<^verbatim>\<open>TextEncoder\<close> and \<^verbatim>\<open>TextDecoder\<close>: a lone surrogate is encoded as U+FFFD, an
  ill-formed byte sequence is decoded to U+FFFD. Neither removes or adds a NUL.
\<close>

definition encodeScalar :: "nat \<Rightarrow> byte list" where
  "encodeScalar c =
     (if c < 0x80 then [of_nat c]
      else if c < 0x800 then [of_nat (0xC0 + c div 64), of_nat (0x80 + c mod 64)]
      else if c < 0x10000 then
        [of_nat (0xE0 + c div 4096), of_nat (0x80 + c div 64 mod 64), of_nat (0x80 + c mod 64)]
      else
        [of_nat (0xF0 + c div 262144), of_nat (0x80 + c div 4096 mod 64),
         of_nat (0x80 + c div 64 mod 64), of_nat (0x80 + c mod 64)])"

definition isHighSurrogate :: "nat \<Rightarrow> bool" where
  "isHighSurrogate u = (0xD800 \<le> u \<and> u < 0xDC00)"

definition isLowSurrogate :: "nat \<Rightarrow> bool" where
  "isLowSurrogate u = (0xDC00 \<le> u \<and> u < 0xE000)"

fun encodeUtf8 :: "jsstring \<Rightarrow> byte list" where
  "encodeUtf8 [] = []"
| "encodeUtf8 [u] =
     (if isHighSurrogate u \<or> isLowSurrogate u then encodeScalar 0xFFFD else encodeScalar u)"
| "encodeUtf8 (u # v # us) =
     (if isHighSurrogate u \<and> isLowSurrogate v
      then encodeScalar (0x10000 + (u - 0xD800) * 1024 + (v - 0xDC00)) @ encodeUtf8 us
      else if isHighSurrogate u \<or> isLowSurrogate u
      then encodeScalar 0xFFFD @ encodeUtf8 (v # us)
      else encodeScalar u @ encodeUtf8 (v # us))"

text \<open>
  The decoder's state: the code point collected so far, the number of continuation bytes
  the lead byte announced, how many of them were seen, and the range the next byte must
  lie in.
\<close>

record utf8_state =
  codePoint :: nat
  bytesNeeded :: nat
  bytesSeen :: nat
  lowerBoundary :: nat
  upperBoundary :: nat

definition utf8_initial :: utf8_state where
  "utf8_initial =
     \<lparr>codePoint = 0, bytesNeeded = 0, bytesSeen = 0, lowerBoundary = 0x80, upperBoundary = 0xBF\<rparr>"

text \<open>A byte read when no sequence is open: the code points emitted and the next state.\<close>

definition utf8_lead :: "nat \<Rightarrow> nat list \<times> utf8_state" where
  "utf8_lead b =
     (if b < 0x80 then ([b], utf8_initial)
      else if 0xC2 \<le> b \<and> b \<le> 0xDF then
        ([], utf8_initial\<lparr>codePoint := b mod 32, bytesNeeded := 1\<rparr>)
      else if 0xE0 \<le> b \<and> b \<le> 0xEF then
        ([], utf8_initial\<lparr>codePoint := b mod 16, bytesNeeded := 2,
                          lowerBoundary := (if b = 0xE0 then 0xA0 else 0x80),
                          upperBoundary := (if b = 0xED then 0x9F else 0xBF)\<rparr>)
      else if 0xF0 \<le> b \<and> b \<le> 0xF4 then
        ([], utf8_initial\<lparr>codePoint := b mod 8, bytesNeeded := 3,
                          lowerBoundary := (if b = 0xF0 then 0x90 else 0x80),
                          upperBoundary := (if b = 0xF4 then 0x8F else 0xBF)\<rparr>)
      else ([0xFFFD], utf8_initial))"

definition utf8_step :: "utf8_state \<Rightarrow> nat \<Rightarrow> nat list \<times> utf8_state" where
  "utf8_step st b =
     (if bytesNeeded st = 0 then utf8_lead b
      else if b < lowerBoundary st \<or> upperBoundary st < b then
        (0xFFFD # fst (utf8_lead b), snd (utf8_lead b))
      else if bytesSeen st + 1 = bytesNeeded st then
        ([codePoint st * 64 + b mod 64], utf8_initial)
      else
        ([], st\<lparr>codePoint := codePoint st * 64 + b mod 64, bytesSeen := bytesSeen st + 1,
                lowerBoundary := 0x80, upperBoundary := 0xBF\<rparr>))"

fun utf8_run :: "utf8_state \<Rightarrow> nat list \<Rightarrow> nat list" where
  "utf8_run st [] = (if bytesNeeded st = 0 then [] else [0xFFFD])"
| "utf8_run st (b # bs) = fst (utf8_step st b) @ utf8_run (snd (utf8_step st b)) bs"

definition toUtf16 :: "nat \<Rightarrow> jsstring" where
  "toUtf16 c =
     (if c < 0x10000 then [c]
      else [0xD800 + (c - 0x10000) div 1024, 0xDC00 + (c - 0x10000) mod 1024])"

fun skipBOM :: "nat list \<Rightarrow> nat list" where
  "skipBOM (a # b # c # bs) = (if a = 0xEF \<and> b = 0xBB \<and> c = 0xBF then bs else a # b # c # bs)"
| "skipBOM bs = bs"

definition decodeUtf8 :: "byte list \<Rightarrow> jsstring" where
  "decodeUtf8 bs = concat (map toUtf16 (utf8_run utf8_initial (skipBOM (map unat bs))))"

subsection \<open>Packets\<close>

text \<open>
  Modelled from the spec: the declarations of \<^verbatim>\<open>AdbCommand\<close>, \<^verbatim>\<open>AdbPacketData\<close> and
  \<^verbatim>\<open>AdbPacketInit\<close> in \<^verbatim>\<open>packet.js\<close> are not among the sources. The commands are
  the seven of the spec's section 3, the fields those of its Packet, which are the ones
  the dispatcher reads and writes; the payload is always an array.
\<close>

datatype AdbCommand = Auth | Close | Connect | OK | Open | Write | Sync

record AdbPacketData =
  command :: AdbCommand
  arg0 :: nat
  arg1 :: nat
  payload :: "byte list"

record AdbPacketInit = AdbPacketData +
  checksum :: "32 word"

text \<open>
  Modelled from the spec: \<^verbatim>\<open>calculateChecksum\<close> of \<^verbatim>\<open>packet.js\<close> is not among the
  sources. The spec: "checksum: 32-bit sum of payload bytes". (The option of the same
  name keeps the name \<open>calculateChecksum\<close>.)
\<close>

definition calculateChecksum_bytes :: "byte list \<Rightarrow> 32 word" where
  "calculateChecksum_bytes bs = foldl (\<lambda>result item. result + ucast item) 0 bs"

text \<open>The overload on a packet: it stores the sum of the packet's payload in the packet.\<close>

definition calculateChecksum_init :: "AdbPacketData \<Rightarrow> AdbPacketInit" where
  "calculateChecksum_init init =
     \<lparr>command = command init, arg0 = arg0 init, arg1 = arg1 init, payload = payload init,
      checksum = calculateChecksum_bytes (payload init)\<rparr>"

subsection \<open>Errors and promises\<close>

text \<open>
  \<open>PayloadTooLarge\<close> is \<^verbatim>\<open>new Error('payload too large')\<close> and \<open>SocketOpenFailed\<close> is
  \<^verbatim>\<open>new Error('Socket open failed')\<close>, the two errors the dispatcher constructs (the spec
  calls them \<^verbatim>\<open>PayloadTooLarge\<close> and \<^verbatim>\<open>OpenRejected\<close>). \<open>WriterReleased\<close> is the
  \<^verbatim>\<open>TypeError\<close> a released stream writer rejects a write with, \<open>TransportFailure\<close> any
  rejection that comes from outside the dispatcher.
\<close>

datatype error = PayloadTooLarge | SocketOpenFailed | WriterReleased | TransportFailure

text \<open>
  Modelled from the spec: \<^verbatim>\<open>PromiseResolver\<close> of the package \<^verbatim>\<open>@yume-chan/async\<close> is
  not among the sources. A "one-shot resolver that yields either a value or an error":
  the first \<open>resolve\<close> or \<open>reject\<close> settles it, any later one changes nothing.
\<close>

datatype 'a promise = Running | Resolved 'a | Rejected error

definition promise_resolve :: "'a promise \<Rightarrow> 'a \<Rightarrow> 'a promise" where
  "promise_resolve p v = (case p of Running \<Rightarrow> Resolved v | _ \<Rightarrow> p)"

definition promise_reject :: "'a promise \<Rightarrow> error \<Rightarrow> 'a promise" where
  "promise_reject p e = (case p of Running \<Rightarrow> Rejected e | _ \<Rightarrow> p)"

subsection \<open>The pending-open table\<close>

text \<open>
  Modelled from the spec: \<^verbatim>\<open>AsyncOperationManager\<close> of the package
  \<^verbatim>\<open>@yume-chan/async\<close> is not among the sources. Section 4.1: ids are produced from a
  start value (the dispatcher passes 1), monotonically. Section 4.2: \<open>add\<close> "allocates an
  id and returns a handle that will be completed later"; \<open>resolve\<close> "completes a pending
  entry; returns whether an entry existed"; \<open>reject\<close> "completes with error; returns
  whether an entry existed"; a duplicate resolve or reject "is a no-op and returns false".

  \<open>operations\<close> is the set of ids that have an entry. The handle that \<open>add\<close> returned
  for an id stays with its caller when the entry is gone; \<open>promises\<close> keeps it, by id.
  The value of a promise is a number or \<^verbatim>\<open>undefined\<close> (\<open>None\<close>).
\<close>

record AsyncOperationManager =
  operationId :: nat
  operations :: "nat set"
  promises :: "nat \<Rightarrow> nat option promise"

definition AsyncOperationManager_new :: "nat \<Rightarrow> AsyncOperationManager" where
  "AsyncOperationManager_new initialId =
     \<lparr>operationId = initialId, operations = {}, promises = (\<lambda>_. Running)\<rparr>"

definition add :: "AsyncOperationManager \<Rightarrow> nat \<times> AsyncOperationManager" where
  "add m =
     (operationId m,
      m\<lparr>operationId := operationId m + 1,
        operations := insert (operationId m) (operations m),
        promises := (promises m)(operationId m := Running)\<rparr>)"

definition resolve :: "AsyncOperationManager \<Rightarrow> nat \<Rightarrow> nat option \<Rightarrow> bool \<times> AsyncOperationManager" where
  "resolve m i v =
     (if i \<in> operations m
      then (True, m\<lparr>operations := operations m - {i},
                    promises := (promises m)(i := promise_resolve (promises m i) v)\<rparr>)
      else (False, m))"

definition reject :: "AsyncOperationManager \<Rightarrow> nat \<Rightarrow> error \<Rightarrow> bool \<times> AsyncOperationManager" where
  "reject m i e =
     (if i \<in> operations m
      then (True, m\<lparr>operations := operations m - {i},
                    promises := (promises m)(i := promise_reject (promises m i) e)\<rparr>)
      else (False, m))"

subsection \<open>Logical streams\<close>

text \<open>
  Modelled from the spec: \<^verbatim>\<open>AdbSocketController\<close> of \<^verbatim>\<open>socket.js\<close> is not among the
  sources. The first five fields are the constructor options the dispatcher passes. The
  others are the attributes of the spec's LogicalStream (section 3): the read queue, the
  write gate, and \<open>closed\<close>, which "once true, never reverts"; \<open>ended\<close> records that
  the end was signalled to the readers. Section 4.3: \<open>enqueue\<close> is "called by the
  dispatcher when a WRTE arrives for this stream" and "may block"; \<open>ack\<close>
  "transitions the write gate to ready"; \<open>dispose\<close> is the "forced teardown; signals end
  to readers and fails pending writers"; \<open>close\<close> "initiates teardown; idempotent".
\<close>

datatype writeGate = Ready | AwaitingAck

record AdbSocketController =
  localId :: nat
  remoteId :: nat
  localCreated :: bool
  serviceString :: jsstring
  readQueue :: "byte list list"
  gate :: writeGate
  closed :: bool
  ended :: bool

definition AdbSocketController_new :: "nat \<Rightarrow> nat \<Rightarrow> bool \<Rightarrow> jsstring \<Rightarrow> AdbSocketController" where
  "AdbSocketController_new l r c str =
     \<lparr>localId = l, remoteId = r, localCreated = c, serviceString = str,
      readQueue = [], gate = Ready, closed = False, ended = False\<rparr>"

definition enqueue :: "AdbSocketController \<Rightarrow> byte list \<Rightarrow> AdbSocketController" where
  "enqueue c bs = c\<lparr>readQueue := readQueue c @ [bs]\<rparr>"

definition ack :: "AdbSocketController \<Rightarrow> AdbSocketController" where
  "ack c = c\<lparr>gate := Ready\<rparr>"

definition socket_dispose :: "AdbSocketController \<Rightarrow> AdbSocketController" where
  "socket_dispose c = c\<lparr>closed := True, ended := True\<rparr>"

subsection \<open>The dispatcher's state\<close>

text \<open>
  Modelled from the spec: the transport writer (\<^verbatim>\<open>WritableStreamDefaultWriter\<close> of
  \<^verbatim>\<open>stream/index.js\<close>) is not among the sources. It is "a duplex channel ... accepting
  outbound packet records", and dispose "releases the writer". \<open>chunks\<close> are the packets
  it has accepted, in order; once released it accepts nothing and rejects the write.
  Releasing it again changes nothing.
\<close>

record writer =
  chunks :: "AdbPacketInit list"
  released :: bool

definition writer_write :: "writer \<Rightarrow> AdbPacketInit \<Rightarrow> error + writer" where
  "writer_write w p = (if released w then Inl WriterReleased else Inr (w\<lparr>chunks := chunks w @ [p]\<rparr>))"

definition releaseLock :: "writer \<Rightarrow> writer" where
  "releaseLock w = w\<lparr>released := True\<rparr>"

record AdbPacketDispatcherOptions =
  calculateChecksum :: bool
  appendNullToServiceString :: bool
  maxPayloadSize :: nat

text \<open>
  What a suspended call of the inbound sink's \<^verbatim>\<open>write\<close> does when the promise it
  awaits is fulfilled: after \<^verbatim>\<open>enqueue\<close> of the \<^verbatim>\<open>WRTE\<close> case (it will send the
  \<^verbatim>\<open>OKAY\<close>), after the \<^verbatim>\<open>sendPacket\<close> of \<^verbatim>\<open>handleClose\<close> (it will dispose the
  socket it holds and delete the entry), and after a \<^verbatim>\<open>sendPacket\<close> that is the last
  statement of its handler.
\<close>

datatype continuation =
  AfterEnqueue AdbPacketData
  | AfterCloseSent nat AdbPacketData
  | AfterSent

text \<open>
  The promise of \<^verbatim>\<open>pipeTo\<close> in the constructor: the pipe runs, or it has ended (cleanly,
  by an error or by the abort signal) and the callback of \<^verbatim>\<open>then\<close> has not run yet, or
  the callback has run.
\<close>

datatype pipe_state = Flowing | Settled | Finished

text \<open>
  The fields of the class, and what the runtime holds for it. \<open>sockets\<close> is the
  \<^verbatim>\<open>Map\<close> from local id to controller, in insertion order; a controller is an object,
  shared with the application, so the map holds its reference and \<open>heap\<close> the objects
  (\<open>nextRef\<close> is the next fresh reference). \<open>aborted\<close> is the signal of
  \<open>_abortController\<close>, \<open>emittersDisposed\<close> what \<^verbatim>\<open>super.dispose()\<close> does to the two
  event emitters, \<open>errors\<close> the values fired on \<open>errorEvent\<close>. \<open>busy\<close> is the
  suspended call of the sink's \<^verbatim>\<open>write\<close> (the pipe makes one call at a time), and
  \<open>openers\<close> are the calls of \<^verbatim>\<open>createSocket\<close> suspended at
  \<^verbatim>\<open>await initializer\<close>, by local id, each with its local variable \<open>serviceString\<close>.
\<close>

record dispatcher =
  initializers :: AsyncOperationManager
  sockets :: "(nat \<times> nat) list"
  heap :: "nat \<Rightarrow> AdbSocketController"
  nextRef :: nat
  writer :: writer
  options :: AdbPacketDispatcherOptions
  disconnected :: "unit promise"
  aborted :: bool
  emittersDisposed :: bool
  errors :: "error list"
  pipe :: pipe_state
  busy :: "continuation option"
  openers :: "nat \<rightharpoonup> jsstring"

text \<open>The constructor: field initialisers, the pipe started, the writer acquired.\<close>

definition AdbPacketDispatcher_new :: "AdbPacketDispatcherOptions \<Rightarrow> dispatcher" where
  "AdbPacketDispatcher_new opts =
     \<lparr>initializers = AsyncOperationManager_new 1,
      sockets = [],
      heap = (\<lambda>_. AdbSocketController_new 0 0 False []),
      nextRef = 0,
      writer = \<lparr>chunks = [], released = False\<rparr>,
      options = opts,
      disconnected = Running,
      aborted = False,
      emittersDisposed = False,
      errors = [],
      pipe = Flowing,
      busy = None,
      openers = Map.empty\<rparr>"

text \<open>\<^verbatim>\<open>new AdbSocketController(...)\<close>: a fresh object; its reference is returned.\<close>

definition allocate :: "dispatcher \<Rightarrow> AdbSocketController \<Rightarrow> nat \<times> dispatcher" where
  "allocate s c = (nextRef s, s\<lparr>heap := (heap s)(nextRef s := c), nextRef := nextRef s + 1\<rparr>)"

subsection \<open>sendPacket\<close>

text \<open>
  The two overloads: a packet, or a command with two arguments and an optional payload
  that is a string or bytes (default: the empty array).
\<close>

datatype payload_arg = Text jsstring | Bytes "byte list"

datatype send_args = Packet AdbPacketData | Fields AdbCommand nat nat payload_arg

definition EmptyUint8Array :: payload_arg where
  "EmptyUint8Array = Bytes []"

definition make_init :: "send_args \<Rightarrow> AdbPacketData" where
  "make_init a =
     (case a of
        Packet p \<Rightarrow> p
      | Fields c a0 a1 pl \<Rightarrow>
          \<lparr>command = c, arg0 = a0, arg1 = a1,
           payload = (case pl of Text t \<Rightarrow> encodeUtf8 t | Bytes bs \<Rightarrow> bs)\<rparr>)"

text \<open>
  \<^verbatim>\<open>sendPacket\<close> up to and including the call of \<^verbatim>\<open>this._writer.write\<close>. The guard
  \<^verbatim>\<open>init.payload &&\<close> is true of every array, the empty one too. The function throws
  before it has changed anything, so an error carries no state. The promise of the write
  is what the caller's \<^verbatim>\<open>await\<close> waits for.
\<close>

definition sendPacket :: "dispatcher \<Rightarrow> send_args \<Rightarrow> error + dispatcher" where
  "sendPacket s a =
     (let init = make_init a in
      if length (payload init) > maxPayloadSize (options s) then Inl PayloadTooLarge
      else
        let p = (if calculateChecksum (options s) then calculateChecksum_init init
                 else \<lparr>command = command init, arg0 = arg0 init, arg1 = arg1 init,
                       payload = payload init, checksum = 0\<rparr>)
        in case writer_write (writer s) p of
             Inl e \<Rightarrow> Inl e
           | Inr w \<Rightarrow> Inr (s\<lparr>writer := w\<rparr>))"

subsection \<open>Inbound packets\<close>

text \<open>
  \<^verbatim>\<open>handleOk\<close> is not asynchronous and does not await the \<^verbatim>\<open>sendPacket\<close> of its last
  line: a rejection of that promise reaches nobody, and the handler returns normally.
\<close>

definition handleOk :: "dispatcher \<Rightarrow> AdbPacketData \<Rightarrow> dispatcher" where
  "handleOk s packet =
     (let (found, m) = resolve (initializers s) (arg1 packet) (Some (arg0 packet));
          s1 = s\<lparr>initializers := m\<rparr>
      in if found then s1
         else case map_of (sockets s1) (arg1 packet) of
                Some socket \<Rightarrow> s1\<lparr>heap := (heap s1)(socket := ack (heap s1 socket))\<rparr>
              | None \<Rightarrow>
                  (case sendPacket s1 (Fields Close (arg1 packet) (arg0 packet) EmptyUint8Array) of
                     Inl e \<Rightarrow> s1
                   | Inr s2 \<Rightarrow> s2))"

text \<open>
  How the code of an asynchronous function runs up to its next \<^verbatim>\<open>await\<close>: it returns,
  it is suspended with a continuation, or it throws.
\<close>

datatype outcome =
  Returned dispatcher
  | Suspended continuation dispatcher
  | Thrown error dispatcher

text \<open>The last two statements of the socket branch of \<^verbatim>\<open>handleClose\<close>.\<close>

definition dispose_and_delete :: "dispatcher \<Rightarrow> nat \<Rightarrow> AdbPacketData \<Rightarrow> dispatcher" where
  "dispose_and_delete s socket packet =
     s\<lparr>heap := (heap s)(socket := socket_dispose (heap s socket)),
       sockets := AList.delete (arg1 packet) (sockets s)\<rparr>"

definition handleClose :: "dispatcher \<Rightarrow> AdbPacketData \<Rightarrow> outcome" where
  "handleClose s packet =
     (let (found, m) = (if arg0 packet = 0 then reject (initializers s) (arg1 packet) SocketOpenFailed
                        else (False, initializers s));
          s1 = s\<lparr>initializers := m\<rparr>
      in if found then Returned s1
         else case map_of (sockets s1) (arg1 packet) of
                Some socket \<Rightarrow>
                  (if \<not> closed (heap s1 socket) then
                     (case sendPacket s1 (Fields Close (arg1 packet) (arg0 packet) EmptyUint8Array) of
                        Inl e \<Rightarrow> Thrown e s1
                      | Inr s2 \<Rightarrow> Suspended (AfterCloseSent socket packet) s2)
                   else Returned (dispose_and_delete s1 socket packet))
              | None \<Rightarrow> Returned s1)"

text \<open>
  \<^verbatim>\<open>handleOpen\<close>. Firing \<open>incomingSocketEvent\<close> runs the application's listeners on
  \<open>args\<close>; what the dispatcher reads back is \<^verbatim>\<open>args.handled\<close>, the parameter
  \<open>handled\<close> here. The promise made by \<open>add\<close> is dropped, and resolved with
  \<^verbatim>\<open>undefined\<close>.
\<close>

definition handleOpen :: "dispatcher \<Rightarrow> AdbPacketData \<Rightarrow> bool \<Rightarrow> outcome" where
  "handleOpen s packet handled =
     (let (lid, m1) = add (initializers s);
          (found, m2) = resolve m1 lid None;
          s1 = s\<lparr>initializers := m2\<rparr>;
          rid = arg0 packet;
          service = decodeUtf8 (payload packet);
          (controller, s2) = allocate s1 (AdbSocketController_new lid rid False service)
      in if handled then
           (let s3 = s2\<lparr>sockets := AList.update lid controller (sockets s2)\<rparr>
            in case sendPacket s3 (Fields OK lid rid EmptyUint8Array) of
                 Inl e \<Rightarrow> Thrown e s3
               | Inr s4 \<Rightarrow> Suspended AfterSent s4)
         else
           (case sendPacket s2 (Fields Close 0 rid EmptyUint8Array) of
              Inl e \<Rightarrow> Thrown e s2
            | Inr s4 \<Rightarrow> Suspended AfterSent s4))"

text \<open>
  The \<^verbatim>\<open>write\<close> callback of the sink the constructor pipes the inbound packets to, up
  to its first \<^verbatim>\<open>await\<close>. In the \<^verbatim>\<open>WRTE\<close> case that is the \<^verbatim>\<open>await\<close> of
  \<^verbatim>\<open>enqueue\<close>: the payload is in the stream's queue and nothing has been sent.
\<close>

definition sink_write :: "dispatcher \<Rightarrow> AdbPacketData \<Rightarrow> bool \<Rightarrow> outcome" where
  "sink_write s packet handled =
     (case command packet of
        OK \<Rightarrow> Returned (handleOk s packet)
      | Close \<Rightarrow> handleClose s packet
      | Write \<Rightarrow>
          (case map_of (sockets s) (arg1 packet) of
             Some socket \<Rightarrow>
               Suspended (AfterEnqueue packet)
                 (s\<lparr>heap := (heap s)(socket := enqueue (heap s socket) (payload packet))\<rparr>)
           | None \<Rightarrow> Returned s)
      | Open \<Rightarrow> handleOpen s packet handled
      | _ \<Rightarrow> Returned s)"

text \<open>The same call, resumed when the promise it awaits is fulfilled.\<close>

definition sink_resume :: "dispatcher \<Rightarrow> continuation \<Rightarrow> outcome" where
  "sink_resume s k =
     (case k of
        AfterEnqueue packet \<Rightarrow>
          (case sendPacket s (Fields OK (arg1 packet) (arg0 packet) EmptyUint8Array) of
             Inl e \<Rightarrow> Thrown e s
           | Inr s1 \<Rightarrow> Suspended AfterSent s1)
      | AfterCloseSent socket packet \<Rightarrow> Returned (dispose_and_delete s socket packet)
      | AfterSent \<Rightarrow> Returned s)"

text \<open>
  What the call leaves behind. The \<^verbatim>\<open>catch\<close> block fires the error on \<open>errorEvent\<close>
  and throws it again, which stops the pipe.
\<close>

definition settle :: "outcome \<Rightarrow> dispatcher" where
  "settle out =
     (case out of
        Returned s \<Rightarrow> s\<lparr>busy := None\<rparr>
      | Suspended k s \<Rightarrow> s\<lparr>busy := Some k\<rparr>
      | Thrown e s \<Rightarrow>
          s\<lparr>busy := None, errors := errors s @ [e],
            pipe := (if pipe s = Flowing then Settled else pipe s)\<rparr>)"

subsection \<open>createSocket\<close>

text \<open>
  \<^verbatim>\<open>createSocket\<close> up to \<^verbatim>\<open>await initializer\<close>. When \<^verbatim>\<open>sendPacket\<close> throws, the call
  fails and the entry that \<open>add\<close> made stays. Otherwise the call is suspended; the
  result names it by its local id.
\<close>

definition createSocket :: "dispatcher \<Rightarrow> jsstring \<Rightarrow> (error + nat) \<times> dispatcher" where
  "createSocket s str =
     (let service = (if appendNullToServiceString (options s) then str @ NUL
                           else str);
          (lid, m) = add (initializers s);
          s1 = s\<lparr>initializers := m\<rparr>
      in case sendPacket s1 (Fields Open lid 0 (Text service)) of
           Inl e \<Rightarrow> (Inl e, s1)
         | Inr s2 \<Rightarrow> (Inr lid, s2\<lparr>openers := (openers s2)(lid \<mapsto> service)\<rparr>))"

text \<open>
  The rest of the call, once the promise is settled: it throws the rejection, or makes
  the controller, stores it and returns its socket (here: the reference). \<open>None\<close>: no
  call is suspended under this id, or its promise is not settled. A promise resolved with
  \<^verbatim>\<open>undefined\<close> is \<^verbatim>\<open>handleOpen\<close>'s own, which no call awaits; the model gives no
  continuation for it.
\<close>

definition createSocket_resume :: "dispatcher \<Rightarrow> nat \<Rightarrow> ((error + nat) \<times> dispatcher) option" where
  "createSocket_resume s lid =
     (case openers s lid of
        None \<Rightarrow> None
      | Some service \<Rightarrow>
          (case promises (initializers s) lid of
             Running \<Rightarrow> None
           | Rejected e \<Rightarrow> Some (Inl e, s\<lparr>openers := (openers s)(lid := None)\<rparr>)
           | Resolved None \<Rightarrow> None
           | Resolved (Some rid) \<Rightarrow>
               (let (controller, s1) =
                      allocate s (AdbSocketController_new lid rid True service)
                in Some (Inr controller,
                         s1\<lparr>sockets := AList.update lid controller (sockets s1),
                            openers := (openers s1)(lid := None)\<rparr>))))"

subsection \<open>dispose\<close>

text \<open>The loop over \<^verbatim>\<open>this.sockets.values()\<close>, and \<^verbatim>\<open>this.sockets.clear()\<close>.\<close>

fun dispose_each :: "(nat \<Rightarrow> AdbSocketController) \<Rightarrow> nat list \<Rightarrow> (nat \<Rightarrow> AdbSocketController)" where
  "dispose_each h [] = h"
| "dispose_each h (socket # rest) = dispose_each (h(socket := socket_dispose (h socket))) rest"

definition dispose_sockets :: "dispatcher \<Rightarrow> dispatcher" where
  "dispose_sockets s = s\<lparr>heap := dispose_each (heap s) (map snd (sockets s)), sockets := []\<rparr>"

text \<open>
  Modelled from the spec: \<^verbatim>\<open>AbortController\<close> and \<^verbatim>\<open>pipeTo\<close> (\<^verbatim>\<open>stream/index.js\<close>)
  are not among the sources; dispose "aborts the inbound pipe".
  \<^verbatim>\<open>this._abortController.abort()\<close>: the signal is set, and a pipe that still runs stops
  (its promise is rejected, so the callback of \<^verbatim>\<open>then\<close> will call \<^verbatim>\<open>dispose\<close> once
  more). A second \<^verbatim>\<open>abort\<close> changes nothing.
\<close>

definition abort :: "dispatcher \<Rightarrow> dispatcher" where
  "abort s = s\<lparr>aborted := True, pipe := (if pipe s = Flowing then Settled else pipe s)\<rparr>"

definition dispose :: "dispatcher \<Rightarrow> dispatcher" where
  "dispose s =
     (let s1 = dispose_sockets s;
          s2 = abort s1;
          s3 = s2\<lparr>writer := releaseLock (writer s2)\<rparr>;
          s4 = s3\<lparr>disconnected := promise_resolve (disconnected s3) ()\<rparr>
      in s4\<lparr>emittersDisposed := True\<rparr>)"

subsection \<open>The application's side of a stream\<close>

text \<open>
  Modelled from the spec: \<^verbatim>\<open>close\<close> of the stream (\<^verbatim>\<open>socket.js\<close>) is not among the
  sources. It "initiates teardown; idempotent": the stream is marked closed and a
  \<^verbatim>\<open>CLSE(localId, remoteId)\<close> goes out through \<^verbatim>\<open>sendPacket\<close>; the entry stays in the
  table until the peer's \<^verbatim>\<open>CLSE\<close> arrives. This is how a stream in the table comes to be
  closed already when \<^verbatim>\<open>handleClose\<close> looks at it.
\<close>

definition socket_close :: "dispatcher \<Rightarrow> nat \<Rightarrow> dispatcher" where
  "socket_close s socket =
     (if closed (heap s socket) then s
      else
        let s1 = s\<lparr>heap := (heap s)(socket := (heap s socket)\<lparr>closed := True\<rparr>)\<rparr>
        in case sendPacket s1 (Fields Close (localId (heap s socket)) (remoteId (heap s socket))
                                EmptyUint8Array) of
             Inl e \<Rightarrow> s1
           | Inr s2 \<Rightarrow> s2)"

subsection \<open>Runs of the dispatcher\<close>

text \<open>
  Every state the dispatcher can be in: the constructor's, and what each piece of code
  above makes of a state when the runtime lets it run. An inbound packet is taken while
  the pipe runs and the previous call of the sink has returned. The promise a suspended
  call awaits is fulfilled or rejected by its owner (the stream's queue, the transport).
  The inbound side may end or fail at any time; the callback of \<^verbatim>\<open>then\<close> then calls
  \<^verbatim>\<open>dispose\<close>. The application may call \<^verbatim>\<open>createSocket\<close>, \<^verbatim>\<open>sendPacket\<close> (a
  stream's writes go through it), \<^verbatim>\<open>dispose\<close> and a stream's \<^verbatim>\<open>close\<close> at any time;
  its reads and writes on a stream change that stream's queue and gate (rule
  \<open>app_stream\<close> allows any change of the two). The listeners of the two events are
  taken not to call back into the dispatcher while an event is fired.
\<close>

inductive reachable :: "dispatcher \<Rightarrow> bool" where
  constructed: "reachable (AdbPacketDispatcher_new opts)"
| inbound: "reachable s \<Longrightarrow> pipe s = Flowing \<Longrightarrow> busy s = None
            \<Longrightarrow> reachable (settle (sink_write s packet handled))"
| fulfilled: "reachable s \<Longrightarrow> busy s = Some k \<Longrightarrow> reachable (settle (sink_resume s k))"
| rejected: "reachable s \<Longrightarrow> busy s = Some k \<Longrightarrow> reachable (settle (Thrown e s))"
| inbound_end: "reachable s \<Longrightarrow> pipe s = Flowing \<Longrightarrow> busy s = None
                \<Longrightarrow> reachable (s\<lparr>pipe := Settled\<rparr>)"
| pipe_callback: "reachable s \<Longrightarrow> pipe s = Settled \<Longrightarrow> reachable ((dispose s)\<lparr>pipe := Finished\<rparr>)"
| app_createSocket: "reachable s \<Longrightarrow> reachable (snd (createSocket s str))"
| app_createSocket_resume: "reachable s \<Longrightarrow> createSocket_resume s lid = Some (r, s')
                            \<Longrightarrow> reachable s'"
| app_sendPacket: "reachable s \<Longrightarrow> sendPacket s a = Inr s' \<Longrightarrow> reachable s'"
| app_dispose: "reachable s \<Longrightarrow> reachable (dispose s)"
| app_close: "reachable s \<Longrightarrow> socket < nextRef s \<Longrightarrow> reachable (socket_close s socket)"
| app_stream: "reachable s \<Longrightarrow> socket < nextRef s
               \<Longrightarrow> reachable (s\<lparr>heap := (heap s)(socket := (heap s socket)\<lparr>readQueue := q, gate := g\<rparr>)\<rparr>)"

subsection \<open>Example runs\<close>

text \<open>
  The runs of the spec's scenarios: a new dispatcher; the same after
  \<^verbatim>\<open>createSocket("shell:")\<close>; after the peer's \<^verbatim>\<open>OKAY(17, 1)\<close>; with the stream
  \<open>(1, 17)\<close> in the table; with that stream closed by the application; and with a
  second \<^verbatim>\<open>createSocket\<close> under way beside the stream. The packets are S6's
  \<^verbatim>\<open>OPEN(42, 0, "sync:\0")\<close> and S4's \<^verbatim>\<open>WRTE(17, 1, "data")\<close>.
\<close>

definition example_options :: AdbPacketDispatcherOptions where
  "example_options = \<lparr>calculateChecksum = False, appendNullToServiceString = True, maxPayloadSize = 4096\<rparr>"

definition AdbPacket :: "AdbCommand \<Rightarrow> nat \<Rightarrow> nat \<Rightarrow> byte list \<Rightarrow> AdbPacketData" where
  "AdbPacket c a0 a1 bs = \<lparr>command = c, arg0 = a0, arg1 = a1, payload = bs\<rparr>"

definition example_new :: dispatcher where
  "example_new = AdbPacketDispatcher_new example_options"

definition example_opening :: dispatcher where
  "example_opening = snd (createSocket example_new (ascii ''shell:''))"

definition example_accepted :: dispatcher where
  "example_accepted = settle (sink_write example_opening (AdbPacket OK 17 1 []) False)"

definition example_stream :: dispatcher where
  "example_stream =
     (case createSocket_resume example_accepted 1 of
        Some (r, s) \<Rightarrow> s
      | None \<Rightarrow> example_accepted)"

definition example_closed :: dispatcher where
  "example_closed = socket_close example_stream 0"

definition example_second :: dispatcher where
  "example_second = snd (createSocket example_stream (ascii ''shell:''))"

definition example_open :: AdbPacketData where
  "example_open = AdbPacket Open 42 0 [0x73, 0x79, 0x6E, 0x63, 0x3A, 0x00]"

definition example_write :: AdbPacketData where
  "example_write = AdbPacket Write 17 1 [0x64, 0x61, 0x74, 0x61]"

subsection \<open>Invariants\<close>

text \<open>
  The ids in use are below the counter; an id with a pending entry has a running promise
  and no stream. While the pipe runs the writer is not released, and \<open>disconnected\<close>
  is never rejected.
\<close>

definition tables_ok :: "dispatcher \<Rightarrow> bool" where
  "tables_ok s =
     ((\<forall>i \<in> operations (initializers s).
          i < operationId (initializers s) \<and> promises (initializers s) i = Running
          \<and> map_of (sockets s) i = None)
      \<and> (\<forall>l a. map_of (sockets s) l = Some a \<longrightarrow> l < operationId (initializers s))
      \<and> (\<forall>l str. openers s l = Some str \<longrightarrow> l < operationId (initializers s)))"

definition live_ok :: "dispatcher \<Rightarrow> bool" where
  "live_ok s = ((pipe s = Flowing \<longrightarrow> \<not> released (writer s)) \<and> (\<forall>e. disconnected s \<noteq> Rejected e))"

section \<open>Properties\<close>

subsection \<open>What sendPacket changes\<close>

lemma sendPacket_empty:
  "sendPacket s (Fields c a0 a1 EmptyUint8Array) =
     (if released (writer s) then Inl WriterReleased
      else Inr (s\<lparr>writer := (writer s)\<lparr>chunks := chunks (writer s) @
                 [\<lparr>command = c, arg0 = a0, arg1 = a1, payload = [], checksum = 0\<rparr>]\<rparr>\<rparr>))"
  by (simp add: sendPacket_def make_init_def EmptyUint8Array_def writer_write_def Let_def
      calculateChecksum_init_def calculateChecksum_bytes_def)

lemma sendPacket_Inr:
  assumes "sendPacket s a = Inr s'"
  shows "\<exists>p. s' = s\<lparr>writer := (writer s)\<lparr>chunks := chunks (writer s) @ [p]\<rparr>\<rparr> \<and> \<not> released (writer s)"
  using assms
  by (auto simp: sendPacket_def Let_def writer_write_def split: if_splits sum.splits)

subsection \<open>Invariants of every run\<close>

lemma tables_ok_sendPacket: "sendPacket s a = Inr s' \<Longrightarrow> tables_ok s' = tables_ok s"
  by (auto dest!: sendPacket_Inr simp: tables_ok_def)

lemma live_ok_sendPacket: "sendPacket s a = Inr s' \<Longrightarrow> live_ok s' = live_ok s"
  by (auto dest!: sendPacket_Inr simp: live_ok_def)

lemma tables_ok_handleOk: "tables_ok s \<Longrightarrow> tables_ok (handleOk s p)"
  unfolding handleOk_def resolve_def
  by (auto simp: Let_def tables_ok_def sendPacket_empty split: option.splits if_splits)

lemma live_ok_handleOk: "live_ok s \<Longrightarrow> live_ok (handleOk s p)"
  unfolding handleOk_def resolve_def
  by (auto simp: Let_def live_ok_def sendPacket_empty split: option.splits if_splits)

lemma tables_ok_handleClose: "tables_ok s \<Longrightarrow> tables_ok (settle (handleClose s p))"
  unfolding handleClose_def reject_def settle_def dispose_and_delete_def
  by (auto simp: Let_def tables_ok_def sendPacket_empty delete_conv' split: option.splits if_splits)

lemma live_ok_handleClose: "live_ok s \<Longrightarrow> live_ok (settle (handleClose s p))"
  unfolding handleClose_def reject_def settle_def dispose_and_delete_def
  by (auto simp: Let_def live_ok_def sendPacket_empty split: option.splits if_splits)

lemma tables_ok_handleOpen: "tables_ok s \<Longrightarrow> tables_ok (settle (handleOpen s p h))"
  unfolding handleOpen_def add_def resolve_def settle_def allocate_def
  by (auto simp: Let_def tables_ok_def sendPacket_empty update_conv' less_Suc_eq
      split: option.splits if_splits)

lemma live_ok_handleOpen: "live_ok s \<Longrightarrow> live_ok (settle (handleOpen s p h))"
  unfolding handleOpen_def add_def resolve_def settle_def allocate_def
  by (auto simp: Let_def live_ok_def sendPacket_empty split: option.splits if_splits)

lemma tables_ok_sink_write: "tables_ok s \<Longrightarrow> tables_ok (settle (sink_write s p h))"
  using tables_ok_handleOk [of s p] tables_ok_handleClose [of s p] tables_ok_handleOpen [of s p h]
  by (cases "command p") (auto simp: sink_write_def settle_def tables_ok_def split: option.splits)

lemma live_ok_sink_write: "live_ok s \<Longrightarrow> live_ok (settle (sink_write s p h))"
  using live_ok_handleOk [of s p] live_ok_handleClose [of s p] live_ok_handleOpen [of s p h]
  by (cases "command p") (auto simp: sink_write_def settle_def live_ok_def split: option.splits)

lemma tables_ok_sink_resume: "tables_ok s \<Longrightarrow> tables_ok (settle (sink_resume s k))"
  by (cases k) (auto simp: sink_resume_def settle_def tables_ok_def sendPacket_empty
       dispose_and_delete_def delete_conv' split: option.splits)

lemma live_ok_sink_resume: "live_ok s \<Longrightarrow> live_ok (settle (sink_resume s k))"
  by (cases k) (auto simp: sink_resume_def settle_def live_ok_def sendPacket_empty
       dispose_and_delete_def split: option.splits)

lemma tables_ok_createSocket: "tables_ok s \<Longrightarrow> tables_ok (snd (createSocket s str))"
  unfolding createSocket_def add_def
  by (auto simp: Let_def tables_ok_def less_Suc_eq dest!: sendPacket_Inr split: sum.splits)

lemma live_ok_createSocket: "live_ok s \<Longrightarrow> live_ok (snd (createSocket s str))"
  unfolding createSocket_def add_def
  by (auto simp: Let_def live_ok_def dest!: sendPacket_Inr split: sum.splits)

lemma tables_ok_createSocket_resume:
  "tables_ok s \<Longrightarrow> createSocket_resume s l = Some (r, s') \<Longrightarrow> tables_ok s'"
  unfolding createSocket_resume_def allocate_def
  by (auto simp: Let_def tables_ok_def update_conv' split: option.splits promise.splits if_splits)

lemma live_ok_createSocket_resume:
  "live_ok s \<Longrightarrow> createSocket_resume s l = Some (r, s') \<Longrightarrow> live_ok s'"
  unfolding createSocket_resume_def allocate_def
  by (auto simp: Let_def live_ok_def split: option.splits promise.splits if_splits)

lemma tables_ok_dispose: "tables_ok s \<Longrightarrow> tables_ok (dispose s)"
  by (auto simp: dispose_def dispose_sockets_def abort_def Let_def tables_ok_def)

lemma live_ok_dispose: "live_ok s \<Longrightarrow> live_ok (dispose s)"
  by (auto simp: dispose_def dispose_sockets_def abort_def Let_def live_ok_def promise_resolve_def
      split: promise.splits)

lemma tables_ok_socket_close: "tables_ok s \<Longrightarrow> tables_ok (socket_close s a)"
  by (auto simp: socket_close_def Let_def tables_ok_def sendPacket_empty)

lemma live_ok_socket_close: "live_ok s \<Longrightarrow> live_ok (socket_close s a)"
  by (auto simp: socket_close_def Let_def live_ok_def sendPacket_empty)

lemma reachable_invariant: "reachable s \<Longrightarrow> tables_ok s \<and> live_ok s"
proof (induction rule: reachable.induct)
  case (constructed opts)
  show ?case
    by (simp add: AdbPacketDispatcher_new_def AsyncOperationManager_new_def tables_ok_def live_ok_def)
next
  case (inbound s packet handled)
  then show ?case by (simp add: tables_ok_sink_write live_ok_sink_write)
next
  case (fulfilled s k)
  then show ?case by (simp add: tables_ok_sink_resume live_ok_sink_resume)
next
  case (rejected s k e)
  then show ?case by (auto simp: settle_def tables_ok_def live_ok_def)
next
  case (inbound_end s)
  then show ?case by (auto simp: tables_ok_def live_ok_def)
next
  case (pipe_callback s)
  then have "tables_ok (dispose s)" "live_ok (dispose s)"
    by (simp_all add: tables_ok_dispose live_ok_dispose)
  then show ?case by (auto simp: tables_ok_def live_ok_def)
next
  case (app_createSocket s str)
  then show ?case by (simp add: tables_ok_createSocket live_ok_createSocket)
next
  case (app_createSocket_resume s lid r s')
  then show ?case by (blast intro: tables_ok_createSocket_resume live_ok_createSocket_resume)
next
  case (app_sendPacket s a s')
  then show ?case by (simp add: tables_ok_sendPacket live_ok_sendPacket)
next
  case (app_dispose s)
  then show ?case by (simp add: tables_ok_dispose live_ok_dispose)
next
  case (app_close s socket)
  then show ?case by (simp add: tables_ok_socket_close live_ok_socket_close)
next
  case (app_stream s socket q g)
  then show ?case by (simp add: tables_ok_def live_ok_def)
qed

lemma reachable_live: "reachable s \<Longrightarrow> pipe s = Flowing \<Longrightarrow> \<not> released (writer s)"
  using reachable_invariant [of s] by (simp add: live_ok_def)

subsection \<open>The example runs are runs\<close>

lemma reachable_example_new: "reachable example_new"
  unfolding example_new_def by (rule reachable.constructed)

lemma encodeUtf8_shell:
  "encodeUtf8 (ascii ''shell:'' @ NUL) = [0x73, 0x68, 0x65, 0x6C, 0x6C, 0x3A, 0x00]"
  by (simp add: ascii_def NUL_def encodeScalar_def isHighSurrogate_def isLowSurrogate_def)

lemmas example_defs =
  example_new_def example_opening_def example_accepted_def example_stream_def example_closed_def
  example_second_def example_open_def example_write_def
  example_options_def AdbPacket_def AdbPacketDispatcher_new_def AsyncOperationManager_new_def

lemmas run_defs =
  createSocket_def add_def resolve_def reject_def sendPacket_def make_init_def writer_write_def
  Let_def sink_write_def settle_def handleOk_def createSocket_resume_def allocate_def
  AdbSocketController_new_def promise_resolve_def promise_reject_def socket_close_def
  EmptyUint8Array_def handleClose_def handleOpen_def sink_resume_def dispose_and_delete_def
  encodeUtf8_shell

lemma example_new_facts:
  "pipe example_new = Flowing \<and> busy example_new = None \<and> sockets example_new = []
   \<and> operations (initializers example_new) = {} \<and> \<not> released (writer example_new)"
  by (simp add: example_defs)

lemma reachable_example_opening: "reachable example_opening"
  unfolding example_opening_def by (rule reachable.app_createSocket [OF reachable_example_new])

lemma example_opening_facts:
  "pipe example_opening = Flowing \<and> busy example_opening = None \<and> sockets example_opening = []
   \<and> operations (initializers example_opening) = {1}
   \<and> openers example_opening 1 = Some (ascii ''shell:'' @ NUL)"
  by (simp add: example_defs run_defs)

lemma reachable_example_accepted: "reachable example_accepted"
  unfolding example_accepted_def
  using reachable_example_opening example_opening_facts by (simp add: reachable.inbound)

lemma example_resume: "createSocket_resume example_accepted 1 = Some (Inr 0, example_stream)"
  by (simp add: example_defs run_defs)

lemma reachable_example_stream: "reachable example_stream"
  using reachable.app_createSocket_resume [OF reachable_example_accepted example_resume] .

lemma example_stream_facts:
  "pipe example_stream = Flowing \<and> busy example_stream = None \<and> sockets example_stream = [(1, 0)]
   \<and> nextRef example_stream = 1 \<and> \<not> closed (heap example_stream 0)
   \<and> \<not> released (writer example_stream) \<and> operations (initializers example_stream) = {}"
  by (simp add: example_defs run_defs)

lemma reachable_example_closed: "reachable example_closed"
  unfolding example_closed_def
  using reachable_example_stream example_stream_facts by (simp add: reachable.app_close)

lemma example_closed_facts:
  "pipe example_closed = Flowing \<and> busy example_closed = None \<and> sockets example_closed = [(1, 0)]
   \<and> closed (heap example_closed 0) \<and> \<not> released (writer example_closed)
   \<and> operations (initializers example_closed) = {}"
  by (simp add: example_defs run_defs)

lemma reachable_example_second: "reachable example_second"
  unfolding example_second_def by (rule reachable.app_createSocket [OF reachable_example_stream])

lemma example_second_facts:
  "sockets example_second = [(1, 0)] \<and> operations (initializers example_second) = {2}"
  by (simp add: example_defs run_defs)

lemma decodeUtf8_sync:
  "decodeUtf8 [0x73, 0x79, 0x6E, 0x63, 0x3A, 0x00] = ascii ''sync:'' @ NUL"
  by (simp add: decodeUtf8_def utf8_step_def utf8_lead_def utf8_initial_def toUtf16_def
      ascii_def NUL_def)

section \<open>The claims\<close>

subsection \<open>C1: an OKAY for an unknown id\<close>

text \<open>
  C1, as amended. An inbound \<^verbatim>\<open>OKAY\<close> with \<open>arg0 = r\<close> and \<open>arg1 = l\<close>, where \<open>l\<close>
  has neither a pending open nor a stream, makes the dispatcher write one packet,
  \<^verbatim>\<open>CLSE\<close> with \<open>arg0 = l\<close> and \<open>arg1 = r\<close> (the code passes \<^verbatim>\<open>packet.arg1\<close> as the
  first argument, not 0), and changes nothing else: the stream table and the
  pending-open table are as before. The premises are those under which a packet is taken
  from the pipe.
\<close>

theorem stale_OKAY_is_answered_with_CLSE:
  assumes "reachable s" and "pipe s = Flowing" and "busy s = None"
    and "command packet = OK"
    and "arg1 packet \<notin> operations (initializers s)"
    and "map_of (sockets s) (arg1 packet) = None"
  shows "settle (sink_write s packet handled) =
           s\<lparr>writer := (writer s)\<lparr>chunks := chunks (writer s) @
                [\<lparr>command = Close, arg0 = arg1 packet, arg1 = arg0 packet,
                  payload = [], checksum = 0\<rparr>]\<rparr>\<rparr>
         \<and> sockets (settle (sink_write s packet handled)) = sockets s
         \<and> initializers (settle (sink_write s packet handled)) = initializers s"
proof -
  from assms(1,2) have live: "\<not> released (writer s)"
    by (rule reachable_live)
  have "settle (sink_write s packet handled) =
           s\<lparr>writer := (writer s)\<lparr>chunks := chunks (writer s) @
                [\<lparr>command = Close, arg0 = arg1 packet, arg1 = arg0 packet,
                  payload = [], checksum = 0\<rparr>]\<rparr>\<rparr>"
    using assms(3-6) live
    by (simp add: sink_write_def settle_def handleOk_def resolve_def sendPacket_empty)
  then show ?thesis by simp
qed

text \<open>The theorem at the spec's scenario S5: a new dispatcher receives \<^verbatim>\<open>OKAY(9, 5)\<close>.\<close>

theorem stale_OKAY_witness:
  "reachable example_new \<and> pipe example_new = Flowing \<and> busy example_new = None
   \<and> command (AdbPacket OK 9 5 []) = OK
   \<and> arg1 (AdbPacket OK 9 5 []) \<notin> operations (initializers example_new)
   \<and> map_of (sockets example_new) (arg1 (AdbPacket OK 9 5 [])) = None
   \<and> chunks (writer (settle (sink_write example_new (AdbPacket OK 9 5 []) False))) =
       [\<lparr>command = Close, arg0 = 5, arg1 = 9, payload = [], checksum = 0\<rparr>]"
proof -
  have h: "command (AdbPacket OK 9 5 []) = OK"
    "arg1 (AdbPacket OK 9 5 []) \<notin> operations (initializers example_new)"
    "map_of (sockets example_new) (arg1 (AdbPacket OK 9 5 [])) = None"
    "pipe example_new = Flowing" "busy example_new = None"
    by (simp_all add: example_new_facts AdbPacket_def)
  have "chunks (writer example_new) = []"
    by (simp add: example_defs)
  with stale_OKAY_is_answered_with_CLSE [OF reachable_example_new h(4) h(5) h(1) h(2) h(3), of False]
  show ?thesis
    using reachable_example_new h by (simp add: AdbPacket_def)
qed

text \<open>
  C1 as the spec states it fails at S5: the stale \<^verbatim>\<open>OKAY(9, 5)\<close> is answered with
  \<^verbatim>\<open>CLSE(5, 9)\<close>; no \<^verbatim>\<open>CLSE(0, 9)\<close> is written.
\<close>

theorem stale_OKAY_counterexample:
  "arg1 (AdbPacket OK 9 5 []) \<notin> operations (initializers example_new)
   \<and> map_of (sockets example_new) (arg1 (AdbPacket OK 9 5 [])) = None
   \<and> map arg0 (chunks (writer (settle (sink_write example_new (AdbPacket OK 9 5 []) False)))) = [5]
   \<and> map arg1 (chunks (writer (settle (sink_write example_new (AdbPacket OK 9 5 []) False)))) = [9]
   \<and> map command (chunks (writer (settle (sink_write example_new (AdbPacket OK 9 5 []) False)))) = [Close]"
  by (simp add: example_defs run_defs)

subsection \<open>C2: the service string of an inbound OPEN\<close>

text \<open>
  C2, as amended. For every inbound \<^verbatim>\<open>OPEN\<close> packet, the \<open>serviceString\<close> of the
  stream that \<^verbatim>\<open>handleOpen\<close> constructs is the UTF-8 decoding of the payload, as it is:
  the code strips nothing, so a trailing NUL stays. The stream gets the id that the
  pending-open table allocates and the packet's \<open>arg0\<close> as remote id, and it is the
  entry of the table when the hook accepts.
\<close>

theorem OPEN_serviceString_is_the_decoded_payload:
  "serviceString (heap (settle (handleOpen s packet handled)) (nextRef s)) = decodeUtf8 (payload packet)
   \<and> localId (heap (settle (handleOpen s packet handled)) (nextRef s)) = operationId (initializers s)
   \<and> remoteId (heap (settle (handleOpen s packet handled)) (nextRef s)) = arg0 packet
   \<and> map_of (sockets (settle (handleOpen s packet True))) (operationId (initializers s)) = Some (nextRef s)"
  by (simp add: handleOpen_def add_def resolve_def allocate_def settle_def Let_def sendPacket_empty
      AdbSocketController_new_def update_conv')

text \<open>The theorem at S6: the stream of \<^verbatim>\<open>OPEN(42, 0, "sync:\0")\<close> is stream 1, "sync:\0".\<close>

theorem OPEN_serviceString_witness:
  "serviceString (heap (settle (handleOpen example_new example_open True)) 0) = ascii ''sync:'' @ NUL
   \<and> localId (heap (settle (handleOpen example_new example_open True)) 0) = 1
   \<and> remoteId (heap (settle (handleOpen example_new example_open True)) 0) = 42
   \<and> map_of (sockets (settle (handleOpen example_new example_open True))) 1 = Some 0"
proof -
  have "nextRef example_new = 0" "operationId (initializers example_new) = 1"
    "decodeUtf8 (payload example_open) = ascii ''sync:'' @ NUL" "arg0 example_open = 42"
    by (simp_all add: example_defs decodeUtf8_sync)
  with OPEN_serviceString_is_the_decoded_payload [of example_new example_open True]
  show ?thesis by simp
qed

text \<open>
  C2 as the spec states it fails at S6: the payload decodes to "sync:\0", the hook accepts,
  and the stream in the table has the service string "sync:\0", not "sync:".
\<close>

theorem OPEN_serviceString_counterexample:
  "command example_open = Open
   \<and> decodeUtf8 (payload example_open) = ascii ''sync:'' @ NUL
   \<and> map_of (sockets (settle (sink_write example_new example_open True))) 1 = Some 0
   \<and> serviceString (heap (settle (sink_write example_new example_open True)) 0) = ascii ''sync:'' @ NUL
   \<and> serviceString (heap (settle (sink_write example_new example_open True)) 0) \<noteq> ascii ''sync:''"
  by (simp add: example_defs run_defs decodeUtf8_sync) (simp add: ascii_def NUL_def)

subsection \<open>C3: WRTE\<close>

text \<open>
  C3. An inbound \<^verbatim>\<open>WRTE\<close> whose \<open>arg1\<close> is the local id of a stream in the table
  puts the payload into that stream's queue and suspends the handler at the \<^verbatim>\<open>await\<close>
  of \<^verbatim>\<open>enqueue\<close>: in the state it leaves, nothing has been written to the transport.
  When \<^verbatim>\<open>enqueue\<close> completes, in whatever state \<open>t\<close> the dispatcher then is, the
  handler hands \<^verbatim>\<open>OKAY(localId, remoteId)\<close>, the packet's \<open>arg1\<close> and \<open>arg0\<close>, to the
  writer and waits for the write; a writer that has not been released takes it as its
  next packet (one that \<^verbatim>\<open>dispose\<close> has released meanwhile rejects it, and the handler
  throws). A \<^verbatim>\<open>WRTE\<close> whose \<open>arg1\<close> matches no stream leaves the state as it is:
  nothing is sent.
\<close>

theorem WRTE_is_enqueued_then_acknowledged:
  assumes "command packet = Write" and "busy s = None"
  shows "(case map_of (sockets s) (arg1 packet) of
            Some socket \<Rightarrow>
              settle (sink_write s packet handled) =
                s\<lparr>heap := (heap s)(socket := enqueue (heap s socket) (payload packet)),
                  busy := Some (AfterEnqueue packet)\<rparr>
          | None \<Rightarrow> settle (sink_write s packet handled) = s)
         \<and> sink_resume t (AfterEnqueue packet) =
             (case writer_write (writer t)
                     \<lparr>command = OK, arg0 = arg1 packet, arg1 = arg0 packet,
                      payload = [], checksum = 0\<rparr> of
                Inl e \<Rightarrow> Thrown e t
              | Inr w \<Rightarrow> Suspended AfterSent (t\<lparr>writer := w\<rparr>))
         \<and> (\<not> released (writer t) \<longrightarrow>
              settle (sink_resume t (AfterEnqueue packet)) =
                t\<lparr>writer := (writer t)\<lparr>chunks := chunks (writer t) @
                     [\<lparr>command = OK, arg0 = arg1 packet, arg1 = arg0 packet,
                       payload = [], checksum = 0\<rparr>]\<rparr>,
                  busy := Some AfterSent\<rparr>)"
  using assms
  by (simp add: sink_write_def sink_resume_def settle_def sendPacket_empty writer_write_def
      split: option.splits)

text \<open>
  The theorem at S4: stream \<open>(1, 17)\<close> receives \<^verbatim>\<open>WRTE(17, 1, "data")\<close>. The payload is
  queued and the transport has seen no new packet; after \<^verbatim>\<open>enqueue\<close> the last packet
  written is \<^verbatim>\<open>OKAY(1, 17)\<close>.
\<close>

theorem WRTE_witness:
  "command example_write = Write \<and> busy example_stream = None
   \<and> map_of (sockets example_stream) (arg1 example_write) = Some 0
   \<and> readQueue (heap (settle (sink_write example_stream example_write False)) 0)
       = [ [0x64, 0x61, 0x74, 0x61] ]
   \<and> chunks (writer (settle (sink_write example_stream example_write False)))
       = chunks (writer example_stream)
   \<and> busy (settle (sink_write example_stream example_write False)) = Some (AfterEnqueue example_write)
   \<and> \<not> released (writer (settle (sink_write example_stream example_write False)))
   \<and> chunks (writer (settle (sink_resume (settle (sink_write example_stream example_write False))
                                (AfterEnqueue example_write))))
       = chunks (writer example_stream)
         @ [\<lparr>command = OK, arg0 = 1, arg1 = 17, payload = [], checksum = 0\<rparr>]"
proof -
  define t where "t = settle (sink_write example_stream example_write False)"
  have h: "command example_write = Write" "busy example_stream = None"
    using example_stream_facts by (simp_all add: example_write_def AdbPacket_def)
  have look: "map_of (sockets example_stream) (arg1 example_write) = Some 0"
    "arg1 example_write = 1" "arg0 example_write = 17"
    "payload example_write = [0x64, 0x61, 0x74, 0x61]"
    using example_stream_facts by (simp_all add: example_write_def AdbPacket_def)
  have queue: "readQueue (heap example_stream 0) = []"
    by (simp add: example_defs run_defs)
  have live: "\<not> released (writer example_stream)"
    by (simp add: example_stream_facts)
  note inst = WRTE_is_enqueued_then_acknowledged [OF h, of False t]
  from inst [THEN conjunct1] look have first:
    "t = example_stream\<lparr>heap := (heap example_stream)(0 := enqueue (heap example_stream 0)
                                     [0x64, 0x61, 0x74, 0x61]),
                         busy := Some (AfterEnqueue example_write)\<rparr>"
    unfolding t_def by simp
  then have same: "writer t = writer example_stream"
    by simp
  with inst [THEN conjunct2, THEN conjunct2] live look have second:
    "settle (sink_resume t (AfterEnqueue example_write)) =
       t\<lparr>writer := (writer t)\<lparr>chunks := chunks (writer t) @
            [\<lparr>command = OK, arg0 = 1, arg1 = 17, payload = [], checksum = 0\<rparr>]\<rparr>,
         busy := Some AfterSent\<rparr>"
    by simp
  have "readQueue (heap t 0) = [ [0x64, 0x61, 0x74, 0x61] ]"
    "busy t = Some (AfterEnqueue example_write)"
    unfolding first using queue by (simp_all add: enqueue_def)
  with same second live h look show ?thesis
    unfolding t_def [symmetric] by simp
qed

subsection \<open>C4: a CLSE that rejects a pending open\<close>

text \<open>
  C4. An inbound \<^verbatim>\<open>CLSE\<close> with \<open>arg0 = 0\<close> whose \<open>arg1\<close> has an entry in the
  pending-open table takes the entry out and rejects its promise with the error
  \<^verbatim>\<open>'Socket open failed'\<close>; it writes nothing and leaves the stream table as it is,
  which has no entry for the id. The call of \<^verbatim>\<open>createSocket\<close> that waits for this id
  then fails with that error, and the tables stay as they are.
\<close>

theorem rejected_open_fails_createSocket:
  assumes "reachable s" and "command packet = Close" and "arg0 packet = 0"
    and "arg1 packet \<in> operations (initializers s)"
  shows "arg1 packet \<notin> operations (initializers (settle (sink_write s packet handled)))
         \<and> promises (initializers (settle (sink_write s packet handled))) (arg1 packet)
             = Rejected SocketOpenFailed
         \<and> map_of (sockets (settle (sink_write s packet handled))) (arg1 packet) = None
         \<and> sockets (settle (sink_write s packet handled)) = sockets s
         \<and> writer (settle (sink_write s packet handled)) = writer s
         \<and> (case openers s (arg1 packet) of
               None \<Rightarrow> True
             | Some str \<Rightarrow>
                 createSocket_resume (settle (sink_write s packet handled)) (arg1 packet) =
                   Some (Inl SocketOpenFailed,
                         (settle (sink_write s packet handled))
                           \<lparr>openers := (openers s)(arg1 packet := None)\<rparr>))"
proof -
  from assms(1) have "tables_ok s"
    by (simp add: reachable_invariant)
  with assms(4) have running: "promises (initializers s) (arg1 packet) = Running"
    and free: "map_of (sockets s) (arg1 packet) = None"
    by (simp_all add: tables_ok_def)
  have eq: "settle (sink_write s packet handled) =
      s\<lparr>initializers := (initializers s)\<lparr>operations := operations (initializers s) - {arg1 packet},
            promises := (promises (initializers s))(arg1 packet := Rejected SocketOpenFailed)\<rparr>,
        busy := None\<rparr>"
    using assms(2-4) running
    by (simp add: sink_write_def handleClose_def reject_def settle_def promise_reject_def)
  show ?thesis
    unfolding eq using free
    by (simp add: createSocket_resume_def split: option.splits)
qed

text \<open>
  The theorem at S2: after \<^verbatim>\<open>createSocket("shell:")\<close> the peer sends \<^verbatim>\<open>CLSE(0, 1)\<close>.
  The call fails with \<^verbatim>\<open>'Socket open failed'\<close>, and id 1 is in neither table.
\<close>

theorem rejected_open_witness:
  "reachable example_opening \<and> command (AdbPacket Close 0 1 []) = Close
   \<and> arg0 (AdbPacket Close 0 1 []) = 0
   \<and> arg1 (AdbPacket Close 0 1 []) \<in> operations (initializers example_opening)
   \<and> map_option fst (createSocket_resume
         (settle (sink_write example_opening (AdbPacket Close 0 1 []) False)) 1)
       = Some (Inl SocketOpenFailed)
   \<and> 1 \<notin> operations (initializers (settle (sink_write example_opening (AdbPacket Close 0 1 []) False)))
   \<and> map_of (sockets (settle (sink_write example_opening (AdbPacket Close 0 1 []) False))) 1 = None"
proof -
  have h: "command (AdbPacket Close 0 1 []) = Close" "arg0 (AdbPacket Close 0 1 []) = 0"
    "arg1 (AdbPacket Close 0 1 []) \<in> operations (initializers example_opening)"
    using example_opening_facts by (simp_all add: AdbPacket_def)
  have "arg1 (AdbPacket Close 0 1 []) = 1"
    "openers example_opening 1 = Some (ascii ''shell:'' @ NUL)"
    "sockets example_opening = []"
    using example_opening_facts by (simp_all add: AdbPacket_def)
  with rejected_open_fails_createSocket [OF reachable_example_opening h, of False]
  show ?thesis
    using reachable_example_opening h by simp
qed

subsection \<open>C5: a CLSE for a stream\<close>

text \<open>
  C5. An inbound \<^verbatim>\<open>CLSE\<close>, whatever its \<open>arg0\<close>, whose \<open>arg1\<close> is the local id of a
  stream in the table: when the stream is closed already, the handler writes nothing,
  disposes the stream and deletes the entry; when it is not, the handler writes
  \<^verbatim>\<open>CLSE(localId, remoteId)\<close>, the packet's \<open>arg1\<close> and \<open>arg0\<close>, and is suspended
  until the write is done; then, in whatever state \<open>t\<close> the dispatcher is, it disposes
  the stream it holds and deletes the entry, writing nothing more. A \<^verbatim>\<open>CLSE\<close> that
  matches no pending open and no stream leaves the state as it is.
\<close>

theorem peer_CLSE_closes_the_stream:
  assumes "reachable s" and "pipe s = Flowing" and "busy s = None"
    and "command packet = Close"
  shows "(case map_of (sockets s) (arg1 packet) of
            Some socket \<Rightarrow>
              (if closed (heap s socket)
               then settle (sink_write s packet handled) = dispose_and_delete s socket packet
               else settle (sink_write s packet handled) =
                      s\<lparr>writer := (writer s)\<lparr>chunks := chunks (writer s) @
                           [\<lparr>command = Close, arg0 = arg1 packet, arg1 = arg0 packet,
                             payload = [], checksum = 0\<rparr>]\<rparr>,
                        busy := Some (AfterCloseSent socket packet)\<rparr>)
          | None \<Rightarrow>
              arg1 packet \<notin> operations (initializers s)
              \<longrightarrow> settle (sink_write s packet handled) = s)
         \<and> settle (sink_resume t (AfterCloseSent ref packet)) =
               (dispose_and_delete t ref packet)\<lparr>busy := None\<rparr>
         \<and> map_of (sockets (dispose_and_delete t ref packet)) (arg1 packet) = None
         \<and> closed (heap (dispose_and_delete t ref packet) ref)
         \<and> ended (heap (dispose_and_delete t ref packet) ref)
         \<and> writer (dispose_and_delete t ref packet) = writer t"
proof -
  from assms(1,2) have live: "\<not> released (writer s)"
    by (rule reachable_live)
  from assms(1) have "tables_ok s"
    by (simp add: reachable_invariant)
  then have no_pending:
    "map_of (sockets s) (arg1 packet) = Some a \<Longrightarrow> arg1 packet \<notin> operations (initializers s)" for a
    by (auto simp: tables_ok_def)
  have first: "(case map_of (sockets s) (arg1 packet) of
            Some socket \<Rightarrow>
              (if closed (heap s socket)
               then settle (sink_write s packet handled) = dispose_and_delete s socket packet
               else settle (sink_write s packet handled) =
                      s\<lparr>writer := (writer s)\<lparr>chunks := chunks (writer s) @
                           [\<lparr>command = Close, arg0 = arg1 packet, arg1 = arg0 packet,
                             payload = [], checksum = 0\<rparr>]\<rparr>,
                        busy := Some (AfterCloseSent socket packet)\<rparr>)
          | None \<Rightarrow>
              arg1 packet \<notin> operations (initializers s)
              \<longrightarrow> settle (sink_write s packet handled) = s)"
    using assms(3,4) live no_pending
    by (auto simp: sink_write_def handleClose_def reject_def settle_def sendPacket_empty
        dispose_and_delete_def split: option.splits)
  show ?thesis
    using first
    by (simp add: sink_resume_def settle_def dispose_and_delete_def socket_dispose_def delete_conv')
qed

text \<open>
  The theorem on stream \<open>(1, 17)\<close> and the peer's \<^verbatim>\<open>CLSE(17, 1)\<close>. Closed by the
  application before: no reply, the stream is disposed and the table is empty. Not
  closed: the reply \<^verbatim>\<open>CLSE(1, 17)\<close> is written and the handler waits.
\<close>

theorem peer_CLSE_witness:
  "reachable example_closed \<and> pipe example_closed = Flowing \<and> busy example_closed = None
   \<and> command (AdbPacket Close 17 1 []) = Close
   \<and> closed (heap example_closed 0)
   \<and> chunks (writer (settle (sink_write example_closed (AdbPacket Close 17 1 []) False)))
       = chunks (writer example_closed)
   \<and> sockets (settle (sink_write example_closed (AdbPacket Close 17 1 []) False)) = []
   \<and> ended (heap (settle (sink_write example_closed (AdbPacket Close 17 1 []) False)) 0)"
proof -
  have h: "pipe example_closed = Flowing" "busy example_closed = None"
    "command (AdbPacket Close 17 1 []) = Close"
    by (simp_all add: example_closed_facts AdbPacket_def)
  have look: "map_of (sockets example_closed) (arg1 (AdbPacket Close 17 1 [])) = Some 0"
    "closed (heap example_closed 0)" "sockets example_closed = [(1, 0)]"
    "arg1 (AdbPacket Close 17 1 []) = 1"
    by (simp_all add: example_closed_facts AdbPacket_def)
  from peer_CLSE_closes_the_stream [OF reachable_example_closed h, of False example_closed 0]
  show ?thesis
    using reachable_example_closed h look
    by (simp add: dispose_and_delete_def socket_dispose_def)
qed

subsection \<open>C6: no id in both tables\<close>

text \<open>
  C6. In every state of every run of the dispatcher (calls of \<^verbatim>\<open>createSocket\<close>, inbound
  packets, and all else \<open>reachable\<close> lists, in any order) no local id is a key of the
  stream table and of the pending-open table at once. When a call of \<^verbatim>\<open>createSocket\<close>
  goes on to insert its stream, the id's pending entry is gone already, and the id that
  \<^verbatim>\<open>handleOpen\<close> allocates has no pending entry when the handler is done.
\<close>

theorem streams_and_pending_opens_are_disjoint:
  assumes "reachable s"
  shows "fst ` set (sockets s) \<inter> operations (initializers s) = {}
         \<and> (createSocket_resume s lid = Some (Inr socket, s') \<longrightarrow> lid \<notin> operations (initializers s))
         \<and> operationId (initializers s)
             \<notin> operations (initializers (settle (handleOpen s packet handled)))"
proof -
  from assms have ok: "tables_ok s"
    by (simp add: reachable_invariant)
  have "l \<in> fst ` set (sockets s) \<Longrightarrow> l \<notin> operations (initializers s)" for l
  proof
    assume "l \<in> fst ` set (sockets s)" and "l \<in> operations (initializers s)"
    with ok have "map_of (sockets s) l = None" "l \<in> dom (map_of (sockets s))"
      by (simp_all add: tables_ok_def dom_map_of_conv_image_fst)
    then show False by auto
  qed
  then have disjoint: "fst ` set (sockets s) \<inter> operations (initializers s) = {}"
    by auto
  have resumed:
    "createSocket_resume s lid = Some (Inr socket, s') \<longrightarrow> lid \<notin> operations (initializers s)"
    using ok by (auto simp: createSocket_resume_def tables_ok_def split: option.splits promise.splits)
  have fresh: "operationId (initializers s)
             \<notin> operations (initializers (settle (handleOpen s packet handled)))"
    by (simp add: handleOpen_def add_def resolve_def allocate_def settle_def Let_def sendPacket_empty)
  from disjoint resumed fresh show ?thesis by simp
qed

text \<open>The theorem on a run with stream 1 in the table and the open of id 2 pending.\<close>

theorem streams_and_pending_opens_witness:
  "reachable example_second
   \<and> fst ` set (sockets example_second) = {1}
   \<and> operations (initializers example_second) = {2}
   \<and> fst ` set (sockets example_second) \<inter> operations (initializers example_second) = {}"
  using streams_and_pending_opens_are_disjoint [OF reachable_example_second]
    reachable_example_second
  by (simp add: example_second_facts)

subsection \<open>C7: what dispose leaves behind\<close>

lemma dispose_each_keeps:
  "closed (h a) \<and> ended (h a) \<Longrightarrow> closed (dispose_each h as a) \<and> ended (dispose_each h as a)"
  by (induction as arbitrary: h) (auto simp: socket_dispose_def)

lemma dispose_each_disposes:
  "a \<in> set as \<Longrightarrow> closed (dispose_each h as a) \<and> ended (dispose_each h as a)"
proof (induction as arbitrary: h)
  case Nil
  then show ?case by simp
next
  case (Cons b as)
  show ?case
  proof (cases "a = b")
    case True
    then show ?thesis
      using dispose_each_keeps [of "h(b := socket_dispose (h b))" a as]
      by (simp add: socket_dispose_def)
  next
    case False
    with Cons show ?thesis by simp
  qed
qed

text \<open>
  C7. After \<^verbatim>\<open>dispose\<close>, called in any state of any run (by the application, or by the
  callback of the pipe's promise when the inbound side has ended or failed: rules
  \<open>app_dispose\<close> and \<open>pipe_callback\<close>), every stream that was in the table is
  disposed (closed, its readers told the end), the table is empty and \<open>disconnected\<close> is
  resolved, with no error. The streams are disposed first: they are in their final state
  after the loop over the table, which does not touch \<open>disconnected\<close>.
\<close>

theorem dispose_closes_every_stream:
  assumes "reachable s"
  shows "(\<forall>(l, socket) \<in> set (sockets s).
            closed (heap (dispose s) socket) \<and> ended (heap (dispose s) socket))
         \<and> sockets (dispose s) = []
         \<and> disconnected (dispose s) = Resolved ()
         \<and> heap (dispose s) = heap (dispose_sockets s)
         \<and> disconnected (dispose_sockets s) = disconnected s"
proof -
  from assms have "live_ok s"
    by (simp add: reachable_invariant)
  then have "disconnected (dispose s) = Resolved ()"
    by (cases "disconnected s")
       (simp_all add: live_ok_def dispose_def dispose_sockets_def abort_def Let_def
          promise_resolve_def)
  moreover have "heap (dispose s) = dispose_each (heap s) (map snd (sockets s))"
    by (simp add: dispose_def dispose_sockets_def abort_def Let_def)
  moreover have "closed (dispose_each (heap s) (map snd (sockets s)) socket)
      \<and> ended (dispose_each (heap s) (map snd (sockets s)) socket)"
    if "(l, socket) \<in> set (sockets s)" for l socket
    using that by (intro dispose_each_disposes) force
  ultimately show ?thesis
    by (auto simp: dispose_def dispose_sockets_def abort_def Let_def)
qed

text \<open>The theorem on the run with stream \<open>(1, 17)\<close>, which is open before.\<close>

theorem dispose_witness:
  "reachable example_stream
   \<and> sockets example_stream = [(1, 0)]
   \<and> \<not> closed (heap example_stream 0)
   \<and> disconnected example_stream = Running
   \<and> closed (heap (dispose example_stream) 0)
   \<and> ended (heap (dispose example_stream) 0)
   \<and> sockets (dispose example_stream) = []
   \<and> disconnected (dispose example_stream) = Resolved ()"
proof -
  have before: "disconnected example_stream = Running" "sockets example_stream = [(1, 0)]"
    "\<not> closed (heap example_stream 0)"
    using example_stream_facts by (simp_all add: example_defs run_defs)
  note inst = dispose_closes_every_stream [OF reachable_example_stream]
  from inst have "\<forall>(l, socket) \<in> set (sockets example_stream).
      closed (heap (dispose example_stream) socket) \<and> ended (heap (dispose example_stream) socket)"
    by (rule conjunct1)
  with before have streams: "closed (heap (dispose example_stream) 0)"
    "ended (heap (dispose example_stream) 0)"
    by simp_all
  from inst have "sockets (dispose example_stream) = []"
    "disconnected (dispose example_stream) = Resolved ()"
    by blast+
  with streams before reachable_example_stream show ?thesis
    by simp
qed

subsection \<open>C8: dispose again\<close>

lemma dispose_dispose: "dispose (dispose s) = dispose s"
  by (cases "disconnected s")
     (simp_all add: dispose_def dispose_sockets_def abort_def Let_def promise_resolve_def
        releaseLock_def)

text \<open>
  C8. For every state of the dispatcher and every \<open>N \<ge> 1\<close> (here \<open>N = n + 1\<close>),
  \<^verbatim>\<open>dispose\<close> called \<open>N\<close> times in a row leaves the state that one call leaves. No call
  fails: \<^verbatim>\<open>dispose\<close> has no error result.
\<close>

theorem dispose_is_idempotent: "(dispose ^^ Suc n) s = dispose s"
  by (induction n) (simp_all add: dispose_dispose)

text \<open>Three calls on the run with stream \<open>(1, 17)\<close>.\<close>

theorem dispose_is_idempotent_witness:
  "dispose (dispose (dispose example_stream)) = dispose example_stream"
  using dispose_is_idempotent [of 2 example_stream]
  by (simp add: numeral_2_eq_2)

subsection \<open>C9: sendPacket\<close>

text \<open>
  C9. \<^verbatim>\<open>sendPacket\<close>, for either overload (\<open>make_init\<close> gives the packet; a string
  payload counts by its UTF-8 bytes): when the payload is longer than
  \<open>maxPayloadSize\<close>, the call fails with \<^verbatim>\<open>'payload too large'\<close> before it has touched
  the dispatcher or the writer. Otherwise the packet is handed to the writer's
  \<^verbatim>\<open>write\<close>, with the checksum of the payload if \<open>calculateChecksum\<close> is set and 0 if
  not, and the call ends as that write does; a writer that has not been released takes
  the packet as its next one, and nothing else changes.
\<close>

theorem sendPacket_checks_the_size_then_writes:
  "(maxPayloadSize (options s) < length (payload (make_init a))
      \<longrightarrow> sendPacket s a = Inl PayloadTooLarge)
   \<and> (length (payload (make_init a)) \<le> maxPayloadSize (options s)
      \<longrightarrow> sendPacket s a =
            map_sum id (\<lambda>w. s\<lparr>writer := w\<rparr>)
              (writer_write (writer s)
                 \<lparr>command = command (make_init a), arg0 = arg0 (make_init a),
                  arg1 = arg1 (make_init a), payload = payload (make_init a),
                  checksum = (if calculateChecksum (options s)
                              then calculateChecksum_bytes (payload (make_init a)) else 0)\<rparr>))
   \<and> (length (payload (make_init a)) \<le> maxPayloadSize (options s) \<and> \<not> released (writer s)
      \<longrightarrow> sendPacket s a =
            Inr (s\<lparr>writer := (writer s)\<lparr>chunks := chunks (writer s) @
                   [\<lparr>command = command (make_init a), arg0 = arg0 (make_init a),
                     arg1 = arg1 (make_init a), payload = payload (make_init a),
                     checksum = (if calculateChecksum (options s)
                                 then calculateChecksum_bytes (payload (make_init a)) else 0)\<rparr>]\<rparr>\<rparr>))"
  by (simp add: sendPacket_def Let_def writer_write_def calculateChecksum_init_def)

text \<open>
  The theorem on a new dispatcher with \<open>maxPayloadSize = 4096\<close> and no checksums: 4097
  bytes are refused, the one byte "A" is written with checksum 0.
\<close>

theorem sendPacket_witness:
  "maxPayloadSize (options example_new) < length (payload (make_init (Fields Write 1 17 (Bytes (replicate 4097 0)))))
   \<and> sendPacket example_new (Fields Write 1 17 (Bytes (replicate 4097 0))) = Inl PayloadTooLarge
   \<and> length (payload (make_init (Fields Write 1 17 (Bytes [0x41])))) \<le> maxPayloadSize (options example_new)
   \<and> \<not> released (writer example_new)
   \<and> map_sum id (chunks \<circ> writer) (sendPacket example_new (Fields Write 1 17 (Bytes [0x41])))
       = Inr [\<lparr>command = Write, arg0 = 1, arg1 = 17, payload = [0x41], checksum = 0\<rparr>]"
proof -
  have big: "maxPayloadSize (options example_new)
               < length (payload (make_init (Fields Write 1 17 (Bytes (replicate 4097 0)))))"
    by (simp add: example_defs make_init_def)
  have small: "length (payload (make_init (Fields Write 1 17 (Bytes [0x41]))))
                 \<le> maxPayloadSize (options example_new)"
    "\<not> released (writer example_new)"
    by (simp_all add: example_defs make_init_def)
  have state: "chunks (writer example_new) = []" "\<not> calculateChecksum (options example_new)"
    by (simp_all add: example_defs)
  note refused =
    sendPacket_checks_the_size_then_writes
      [of example_new "Fields Write 1 17 (Bytes (replicate 4097 0))", THEN conjunct1]
  note written =
    sendPacket_checks_the_size_then_writes
      [of example_new "Fields Write 1 17 (Bytes [0x41])", THEN conjunct2, THEN conjunct2]
  from refused big have "sendPacket example_new (Fields Write 1 17 (Bytes (replicate 4097 0)))
      = Inl PayloadTooLarge"
    by simp
  moreover from written small state
  have "map_sum id (chunks \<circ> writer) (sendPacket example_new (Fields Write 1 17 (Bytes [0x41])))
       = Inr [\<lparr>command = Write, arg0 = 1, arg1 = 17, payload = [0x41], checksum = 0\<rparr>]"
    by (simp add: make_init_def)
  ultimately show ?thesis
    using big small by simp
qed

subsection \<open>C10: the NUL that createSocket appends\<close>

text \<open>
  C10. With \<open>appendNullToServiceString\<close> set, a call of \<^verbatim>\<open>createSocket\<close> whose
  \<^verbatim>\<open>OPEN\<close> goes out has sent \<^verbatim>\<open>OPEN(localId, 0, serviceString + '\0')\<close> and keeps the
  lengthened string: when the peer's \<^verbatim>\<open>OKAY\<close> for the id has arrived and the call goes
  on, the stream it stores and returns has the service string with the NUL at its end,
  not the string the caller passed.
\<close>

theorem createSocket_keeps_the_appended_NUL:
  assumes "appendNullToServiceString (options s)"
    and "createSocket s str = (Inr lid, s1)"
  shows "lid = operationId (initializers s)
         \<and> chunks (writer s1) =
             chunks (writer s) @
               [\<lparr>command = Open, arg0 = lid, arg1 = 0, payload = encodeUtf8 (str @ NUL),
                 checksum = (if calculateChecksum (options s)
                             then calculateChecksum_bytes (encodeUtf8 (str @ NUL)) else 0)\<rparr>]
         \<and> openers s1 lid = Some (str @ NUL)
         \<and> (case createSocket_resume (handleOk s1 (AdbPacket OK r lid [])) lid of
               Some (Inr socket, t) \<Rightarrow>
                 serviceString (heap t socket) = str @ NUL
                 \<and> last (serviceString (heap t socket)) = 0
                 \<and> serviceString (heap t socket) \<noteq> str
                 \<and> map_of (sockets t) lid = Some socket
             | _ \<Rightarrow> False)"
proof -
  have fits: "\<not> maxPayloadSize (options s) < length (encodeUtf8 (str @ NUL))"
    and live: "\<not> released (writer s)"
    using assms
    by (auto simp: createSocket_def add_def sendPacket_def make_init_def writer_write_def Let_def
        split: if_splits)
  with assms have lid: "lid = operationId (initializers s)"
    and s1: "s1 = s\<lparr>initializers := snd (add (initializers s)),
                    writer := (writer s)\<lparr>chunks := chunks (writer s) @
                      [\<lparr>command = Open, arg0 = operationId (initializers s), arg1 = 0,
                        payload = encodeUtf8 (str @ NUL),
                        checksum = (if calculateChecksum (options s)
                                    then calculateChecksum_bytes (encodeUtf8 (str @ NUL))
                                    else 0)\<rparr>]\<rparr>,
                    openers := (openers s)(operationId (initializers s) \<mapsto> str @ NUL)\<rparr>"
    by (auto simp: createSocket_def add_def sendPacket_def make_init_def writer_write_def Let_def
        calculateChecksum_init_def)
  show ?thesis
    unfolding s1 lid
    by (simp add: add_def handleOk_def resolve_def AdbPacket_def createSocket_resume_def
        promise_resolve_def allocate_def AdbSocketController_new_def update_conv' NUL_def Let_def)
qed

text \<open>
  The theorem at S1 with the option set: \<^verbatim>\<open>createSocket("shell:")\<close> sends the seven
  bytes of "shell:\0", and the stream made after \<^verbatim>\<open>OKAY(17, 1)\<close> is named "shell:\0".
\<close>

theorem createSocket_NUL_witness:
  "appendNullToServiceString (options example_new)
   \<and> createSocket example_new (ascii ''shell:'') = (Inr 1, example_opening)
   \<and> map payload (chunks (writer example_opening)) = [ [0x73, 0x68, 0x65, 0x6C, 0x6C, 0x3A, 0x00] ]
   \<and> createSocket_resume example_accepted 1 = Some (Inr 0, example_stream)
   \<and> serviceString (heap example_stream 0) = ascii ''shell:'' @ NUL
   \<and> serviceString (heap example_stream 0) \<noteq> ascii ''shell:''"
proof -
  have h: "appendNullToServiceString (options example_new)"
    "createSocket example_new (ascii ''shell:'') = (Inr 1, example_opening)"
    by (simp_all add: example_defs run_defs)
  have state: "chunks (writer example_new) = []"
    by (simp add: example_defs)
  have run: "handleOk example_opening (AdbPacket OK 17 1 []) = example_accepted"
    using example_opening_facts
    by (simp add: example_accepted_def sink_write_def settle_def AdbPacket_def handleOk_def
        resolve_def)
  have nul: "NUL \<noteq> []"
    by (simp add: NUL_def)
  note inst = createSocket_keeps_the_appended_NUL [OF h, of 17]
  from inst state have sent:
    "map payload (chunks (writer example_opening)) = [ [0x73, 0x68, 0x65, 0x6C, 0x6C, 0x3A, 0x00] ]"
    by (simp add: encodeUtf8_shell)
  from inst [THEN conjunct2, THEN conjunct2, THEN conjunct2, unfolded run example_resume]
  have "serviceString (heap example_stream 0) = ascii ''shell:'' @ NUL"
    "serviceString (heap example_stream 0) \<noteq> ascii ''shell:''"
    using nul by simp_all
  with h sent example_resume show ?thesis
    by simp
qed

end
